theory Spec2Isabelle
  imports Complex_Main "HOL-Library.Sublist"
begin

section \<open>Python values used by app.py\<close>

text \<open>
  A Python \<open>str\<close> is a sequence of Unicode code points, so it is modelled as a list of
  natural numbers. \<open>py\<close> turns an ASCII literal into such a list; the few non-ASCII
  characters of the source (the emoji of the headings) are written as their code points.
\<close>

type_synonym pystr = "nat list"

definition py :: "string \<Rightarrow> pystr" where
  "py cs = map of_char cs"

text \<open>
  \<open>str.isspace\<close> for one code point: the characters Python treats as whitespace
  (U+0009..U+000D, U+001C..U+0020, U+0085, U+00A0, U+1680, U+2000..U+200A, U+2028, U+2029,
  U+202F, U+205F, U+3000).
\<close>

definition isspace :: "nat \<Rightarrow> bool" where
  "isspace c \<longleftrightarrow>
     (9 \<le> c \<and> c \<le> 13) \<or> (28 \<le> c \<and> c \<le> 32) \<or> c = 133 \<or> c = 160 \<or> c = 5760 \<or>
     (8192 \<le> c \<and> c \<le> 8202) \<or> c = 8232 \<or> c = 8233 \<or> c = 8239 \<or> c = 8287 \<or> c = 12288"

definition lstrip :: "pystr \<Rightarrow> pystr" where
  "lstrip s = dropWhile isspace s"

definition rstrip :: "pystr \<Rightarrow> pystr" where
  "rstrip s = rev (dropWhile isspace (rev s))"

text \<open>\<open>s.strip()\<close> with no argument: whitespace removed at both ends.\<close>

definition strip :: "pystr \<Rightarrow> pystr" where
  "strip s = rstrip (lstrip s)"

text \<open>\<open>str(n)\<close> for an \<open>int\<close>, as an f-string formats it: decimal digits, a minus sign first
  when negative.\<close>

fun str_nat :: "nat \<Rightarrow> pystr" where
  "str_nat n = (if n < 10 then [48 + n] else str_nat (n div 10) @ [48 + n mod 10])"

declare str_nat.simps [simp del]

definition str_int :: "int \<Rightarrow> pystr" where
  "str_int i = (if i < 0 then 45 # str_nat (nat (- i)) else str_nat (nat i))"

text \<open>
  Exceptions. Every exception the program can meet is an instance of \<open>Exception\<close>, so every
  \<open>except Exception\<close> handler catches it; the value keeps the class and the text \<open>str(e)\<close>.
  \<open>RequestException\<close> stands for whatever \<open>requests.post\<close> raises (connection error,
  timeout, ...), \<open>JSONDecodeError\<close> for a body that \<open>response.json()\<close> cannot parse.
\<close>

datatype exn_class =
  RequestException | JSONDecodeError | KeyError | IndexError | TypeError | AttributeError

datatype exn = Exn exn_class pystr

fun exn_str :: "exn \<Rightarrow> pystr" where
  "exn_str (Exn c m) = m"

text \<open>
  The value \<open>response.json()\<close> returns. A JSON object is a Python \<open>dict\<close> with
  string keys, kept as an association list that is read with \<open>map_of\<close>. No operation
  of the program reads the value of a float, so \<open>JFloat\<close> carries none.
\<close>

datatype json =
  JNull | JBool bool | JInt int | JFloat | JStr pystr | JArr "json list" | JObj "(pystr \<times> json) list"

fun type_name :: "json \<Rightarrow> pystr" where
  "type_name JNull = py ''NoneType''"
| "type_name (JBool b) = py ''bool''"
| "type_name (JInt i) = py ''int''"
| "type_name JFloat = py ''float''"
| "type_name (JStr s) = py ''str''"
| "type_name (JArr xs) = py ''list''"
| "type_name (JObj kvs) = py ''dict''"

definition not_subscriptable :: "json \<Rightarrow> exn" where
  "not_subscriptable v = Exn TypeError ([39] @ type_name v @ [39] @ py '' object is not subscriptable'')"

text \<open>\<open>v[k]\<close> for a string key \<open>k\<close> (the keys of the source are plain identifiers, whose
  \<open>repr\<close> is the key between single quotes).\<close>

fun getitem_str :: "json \<Rightarrow> pystr \<Rightarrow> exn + json" where
  "getitem_str (JObj kvs) k =
     (case map_of kvs k of Some v \<Rightarrow> Inr v | None \<Rightarrow> Inl (Exn KeyError ([39] @ k @ [39])))"
| "getitem_str (JArr xs) k =
     Inl (Exn TypeError (py ''list indices must be integers or slices, not str''))"
| "getitem_str (JStr s) k =
     Inl (Exn TypeError (py ''string indices must be integers, not 'str'' @ [39]))"
| "getitem_str v k = Inl (not_subscriptable v)"

text \<open>\<open>v[0]\<close>.\<close>

fun getitem_0 :: "json \<Rightarrow> exn + json" where
  "getitem_0 (JArr []) = Inl (Exn IndexError (py ''list index out of range''))"
| "getitem_0 (JArr (x # xs)) = Inr x"
| "getitem_0 (JStr []) = Inl (Exn IndexError (py ''string index out of range''))"
| "getitem_0 (JStr (c # cs)) = Inr (JStr [c])"
| "getitem_0 (JObj kvs) = Inl (Exn KeyError (py ''0''))"
| "getitem_0 v = Inl (not_subscriptable v)"

text \<open>\<open>v.strip()\<close>: only a \<open>str\<close> has the method.\<close>

fun call_strip :: "json \<Rightarrow> exn + pystr" where
  "call_strip (JStr s) = Inr (strip s)"
| "call_strip v =
     Inl (Exn AttributeError ([39] @ type_name v @ [39] @ py '' object has no attribute 'strip'' @ [39]))"

text \<open>Sequencing of operations that may raise: the first exception ends the expression.\<close>

definition and_then :: "exn + 'a \<Rightarrow> ('a \<Rightarrow> exn + 'b) \<Rightarrow> exn + 'b" where
  "and_then r f = (case r of Inl e \<Rightarrow> Inl e | Inr v \<Rightarrow> f v)"

section \<open>The HTTP exchange\<close>

record message =
  role :: pystr
  content :: pystr

record chat_data =
  model :: pystr
  messages :: "message list"
  max_tokens :: int
  temperature :: real

record request =
  url :: pystr
  headers :: "(pystr \<times> pystr) list"
  json_data :: chat_data

text \<open>What the program reads of a response: \<open>status_code\<close>, \<open>text\<close> and the outcome of
  \<open>json()\<close>.\<close>

record response =
  status_code :: int
  resp_text :: pystr
  resp_json :: "exn + json"

text \<open>
  The world outside the program. \<open>requests.post\<close> is a call into the network: the
  \<open>n\<close>-th call made by the process (counted from 0) with request \<open>r\<close> either raises or
  yields a response, \<open>net n r\<close>. The state of the world is the list of the requests posted
  so far, in order.
\<close>

type_synonym network = "nat \<Rightarrow> request \<Rightarrow> exn + response"

type_synonym world = "request list"

definition GROQ_API_URL :: pystr where
  "GROQ_API_URL = py ''https://api.groq.com/openai/v1/chat/completions''"

text \<open>\<open>GROQ_API_KEY = os.getenv("GROQ_API_KEY")\<close> is \<open>None\<close> when the variable is absent;
  the f-string of the header formats \<open>None\<close> as the text \<open>None\<close>.\<close>

definition format_key :: "pystr option \<Rightarrow> pystr" where
  "format_key k = (case k of None \<Rightarrow> py ''None'' | Some v \<Rightarrow> v)"

text \<open>The request that \<open>call_groq_api\<close> posts: the URL, the two headers, and the body with
  the fixed model, the system message, the prompt as the user message, the token limit and
  the temperature.\<close>

definition build_request :: "pystr option \<Rightarrow> pystr \<Rightarrow> request" where
  "build_request GROQ_API_KEY prompt =
     \<lparr> url = GROQ_API_URL,
       headers = [(py ''Authorization'', py ''Bearer '' @ format_key GROQ_API_KEY),
                  (py ''Content-Type'', py ''application/json'')],
       json_data = \<lparr> model = py ''llama3-70b-8192'',
                     messages = [\<lparr> role = py ''system'', content = py ''You are a helpful assistant.'' \<rparr>,
                                 \<lparr> role = py ''user'', content = prompt \<rparr>],
                     max_tokens = 1024,
                     temperature = 0.8 \<rparr> \<rparr>"

text \<open>\<open>response.json()["choices"][0]["message"]["content"].strip()\<close>, read from left to
  right; each step can raise.\<close>

definition first_choice_text :: "response \<Rightarrow> exn + pystr" where
  "first_choice_text r =
     and_then (resp_json r) (\<lambda>j.
     and_then (getitem_str j (py ''choices'')) (\<lambda>cs.
     and_then (getitem_0 cs) (\<lambda>c.
     and_then (getitem_str c (py ''message'')) (\<lambda>m.
     and_then (getitem_str m (py ''content'')) call_strip))))"

text \<open>The client. The request joins the world when it is posted, whether the call then
  raises or returns a response.\<close>

definition call_groq_api ::
  "pystr option \<Rightarrow> network \<Rightarrow> world \<Rightarrow> pystr \<Rightarrow> (exn + pystr) \<times> world" where
  "call_groq_api GROQ_API_KEY net w prompt =
     (let req = build_request GROQ_API_KEY prompt;
          w' = w @ [req]
      in case net (length w) req of
           Inl e \<Rightarrow> (Inl e, w')
         | Inr r \<Rightarrow>
             if status_code r = 200 then (first_choice_text r, w')
             else (Inr (py ''Error: '' @ str_int (status_code r) @ py '' - '' @ resp_text r), w'))"

section \<open>The state of a generation request\<close>

text \<open>
  \<open>ScriptState\<close> is a \<open>TypedDict\<close> in which every key is required: a state always holds
  all nine keys, as the one that \<open>generate_script\<close> builds does.
\<close>

record ScriptState =
  topic :: pystr
  duration :: int
  tone :: pystr
  platform :: pystr
  language :: pystr
  script_outline :: pystr
  final_script :: pystr
  hashtags :: pystr
  error :: pystr

text \<open>
  The source reads some keys with \<open>state.get(key)\<close> or \<open>state.get(key, default)\<close>. On a
  \<open>dict\<close> that returns the stored value whenever the key is present, whatever the value
  is, and the default (\<open>None\<close> when none is given) only for a key that is absent.
  \<open>str_items\<close> lists the keys of a state that hold a string, the only ones read this way.
\<close>

definition str_items :: "ScriptState \<Rightarrow> (pystr \<times> pystr) list" where
  "str_items s =
     [(py ''topic'', topic s), (py ''tone'', tone s), (py ''platform'', platform s),
      (py ''language'', language s), (py ''script_outline'', script_outline s),
      (py ''final_script'', final_script s), (py ''hashtags'', hashtags s),
      (py ''error'', error s)]"

definition dict_get :: "ScriptState \<Rightarrow> pystr \<Rightarrow> pystr option" where
  "dict_get s k = map_of (str_items s) k"

definition dict_get_default :: "ScriptState \<Rightarrow> pystr \<Rightarrow> pystr \<Rightarrow> pystr" where
  "dict_get_default s k d = (case dict_get s k of None \<Rightarrow> d | Some v \<Rightarrow> v)"

text \<open>Truth value of what \<open>state.get(key)\<close> returns: \<open>None\<close> and the empty string are
  false, every other string is true.\<close>

definition truthy :: "pystr option \<Rightarrow> bool" where
  "truthy v = (case v of None \<Rightarrow> False | Some x \<Rightarrow> x \<noteq> [])"

section \<open>The three nodes\<close>

definition outline_prompt :: "ScriptState \<Rightarrow> pystr" where
  "outline_prompt s =
     py ''\<newline>'' @
     py ''    Create a detailed outline for a '' @ str_int (duration s) @
     py ''-second social media script about '' @ [34] @ topic s @ [34] @
     py '' in '' @ language s @ py ''.\<newline>'' @
     py ''    Tone: '' @ tone s @ py ''\<newline>'' @
     py ''    Platform: '' @ dict_get_default s (py ''platform'') (py ''Any'') @ py ''\<newline>'' @
     py ''    \<newline>'' @
     py ''    Provide a structured outline with:\<newline>'' @
     py ''    1. Hook/Intro (first 5-10 seconds)\<newline>'' @
     py ''    2. Main content points (middle section)\<newline>'' @
     py ''    3. Call-to-action (last 5-10 seconds)\<newline>'' @
     py ''    \<newline>'' @
     py ''    Consider the platform's audience and format requirements.\<newline>'' @
     py ''    ''"

definition create_outline_node ::
  "pystr option \<Rightarrow> network \<Rightarrow> world \<Rightarrow> ScriptState \<Rightarrow> ScriptState \<times> world" where
  "create_outline_node GROQ_API_KEY net w s =
     (case call_groq_api GROQ_API_KEY net w (outline_prompt s) of
        (Inr outline, w') \<Rightarrow> (s\<lparr>script_outline := outline\<rparr>, w')
      | (Inl e, w') \<Rightarrow> (s\<lparr>error := py ''Error creating outline: '' @ exn_str e\<rparr>, w'))"

definition script_prompt :: "ScriptState \<Rightarrow> pystr" where
  "script_prompt s =
     py ''\<newline>'' @
     py ''    Based on this outline: '' @ script_outline s @ py ''\<newline>'' @
     py ''    \<newline>'' @
     py ''    Write a complete '' @ str_int (duration s) @
     py ''-second social media script about '' @ [34] @ topic s @ [34] @
     py '' in '' @ language s @ py ''.\<newline>'' @
     py ''    Tone: '' @ tone s @ py ''\<newline>'' @
     py ''    Platform: '' @ dict_get_default s (py ''platform'') (py ''Any'') @ py ''\<newline>'' @
     py ''    \<newline>'' @
     py ''    Make it engaging, conversational, and appropriate for the platform.\<newline>'' @
     py ''    Include timing cues and natural pauses.\<newline>'' @
     py ''    Ensure it fits within '' @ str_int (duration s) @
     py '' seconds when spoken at normal pace.\<newline>'' @
     py ''    ''"

definition generate_script_node ::
  "pystr option \<Rightarrow> network \<Rightarrow> world \<Rightarrow> ScriptState \<Rightarrow> ScriptState \<times> world" where
  "generate_script_node GROQ_API_KEY net w s =
     (if truthy (dict_get s (py ''error'')) then (s, w)
      else case call_groq_api GROQ_API_KEY net w (script_prompt s) of
        (Inr script, w') \<Rightarrow> (s\<lparr>final_script := script\<rparr>, w')
      | (Inl e, w') \<Rightarrow> (s\<lparr>error := py ''Error generating script: '' @ exn_str e\<rparr>, w'))"

definition hashtag_prompt :: "ScriptState \<Rightarrow> pystr" where
  "hashtag_prompt s =
     py ''\<newline>'' @
     py ''    Based on this script: '' @ final_script s @ py ''\<newline>'' @
     py ''    \<newline>'' @
     py ''    Generate:\<newline>'' @
     py ''    1. 8-10 relevant hashtags for '' @
       dict_get_default s (py ''platform'') (py ''social media'') @ py ''\<newline>'' @
     py ''    2. A compelling caption/description\<newline>'' @
     py ''    \<newline>'' @
     py ''    Topic: '' @ topic s @ py ''\<newline>'' @
     py ''    Platform: '' @ dict_get_default s (py ''platform'') (py ''Any'') @ py ''\<newline>'' @
     py ''    Language: '' @ language s @ py ''\<newline>'' @
     py ''    \<newline>'' @
     py ''    Make hashtags trending and platform-appropriate.\<newline>'' @
     py ''    ''"

definition generate_hashtags_node ::
  "pystr option \<Rightarrow> network \<Rightarrow> world \<Rightarrow> ScriptState \<Rightarrow> ScriptState \<times> world" where
  "generate_hashtags_node GROQ_API_KEY net w s =
     (if truthy (dict_get s (py ''error'')) then (s, w)
      else case call_groq_api GROQ_API_KEY net w (hashtag_prompt s) of
        (Inr tags, w') \<Rightarrow> (s\<lparr>hashtags := tags\<rparr>, w')
      | (Inl e, w') \<Rightarrow> (s\<lparr>error := py ''Error generating hashtags: '' @ exn_str e\<rparr>, w'))"

section \<open>The workflow and its rendering\<close>

text \<open>
  \<open>create_script_workflow\<close> compiles a graph with the entry point \<open>create_outline\<close> and
  the edges \<open>create_outline\<close> to \<open>generate_script\<close> to \<open>generate_hashtags\<close> to the
  end: invoking it runs the three nodes once each, in that order, each on the state the
  previous one returned.
\<close>

definition app_invoke ::
  "pystr option \<Rightarrow> network \<Rightarrow> world \<Rightarrow> ScriptState \<Rightarrow> ScriptState \<times> world" where
  "app_invoke GROQ_API_KEY net w s =
     (let (s1, w1) = create_outline_node GROQ_API_KEY net w s;
          (s2, w2) = generate_script_node GROQ_API_KEY net w1 s1;
          (s3, w3) = generate_hashtags_node GROQ_API_KEY net w2 s2
      in (s3, w3))"

definition initial_state :: "pystr \<Rightarrow> int \<Rightarrow> pystr \<Rightarrow> pystr \<Rightarrow> pystr \<Rightarrow> ScriptState" where
  "initial_state topic_v duration_v tone_v platform_v language_v =
     \<lparr> topic = topic_v, duration = duration_v, tone = tone_v, platform = platform_v,
       language = language_v, script_outline = [], final_script = [], hashtags = [],
       error = [] \<rparr>"

definition response_template :: "ScriptState \<Rightarrow> pystr" where
  "response_template result =
     py ''\<newline>'' @
     py ''## '' @ [128221] @ py '' Script Outline\<newline>'' @
     dict_get_default result (py ''script_outline'') (py ''No outline generated'') @
     py ''\<newline>'' @
     py ''\<newline>'' @
     py ''## '' @ [127916] @ py '' Final Script\<newline>'' @
     dict_get_default result (py ''final_script'') (py ''No script generated'') @
     py ''\<newline>'' @
     py ''\<newline>'' @
     py ''## '' @ [127991] @ [65039] @ py '' Hashtags & Caption\<newline>'' @
     dict_get_default result (py ''hashtags'') (py ''No hashtags generated'') @
     py ''\<newline>'' @
     py ''        ''"

text \<open>
  The nodes catch every exception of their client call and nothing else in them can raise
  on a state of the declared type, so \<open>app.invoke\<close> returns and the handler
  \<open>except Exception\<close> of \<open>generate_script\<close> (the text \<open>Workflow error\<close>) has no
  exception of this program to catch.
\<close>

definition generate_script ::
  "pystr option \<Rightarrow> network \<Rightarrow> world \<Rightarrow> pystr \<Rightarrow> int \<Rightarrow> pystr \<Rightarrow> pystr \<Rightarrow> pystr \<Rightarrow> pystr \<times> world" where
  "generate_script GROQ_API_KEY net w topic_v duration_v tone_v platform_v language_v =
     (let (result, w') =
            app_invoke GROQ_API_KEY net w
              (initial_state topic_v duration_v tone_v platform_v language_v)
      in if truthy (dict_get result (py ''error'')) then ([10060] @ py '' '' @ error result, w')
         else (strip (response_template result), w'))"

section \<open>The form\<close>

text \<open>What the page shows after a submission, in order.\<close>

datatype st_call =
  St_error pystr | St_spinner pystr | St_subheader pystr | St_markdown pystr | St_success pystr

text \<open>The block under \<open>if submitted:\<close>, on the values of the five widgets.\<close>

definition on_submitted ::
  "pystr option \<Rightarrow> network \<Rightarrow> world \<Rightarrow> pystr \<Rightarrow> int \<Rightarrow> pystr \<Rightarrow> pystr \<Rightarrow> pystr \<Rightarrow> st_call list \<times> world" where
  "on_submitted GROQ_API_KEY net w topic_v duration_v tone_v platform_v language_v =
     (if strip topic_v = [] then ([St_error (py ''Please enter a topic!'')], w)
      else
        let (script, w') =
              generate_script GROQ_API_KEY net w topic_v duration_v tone_v platform_v language_v
        in ([St_spinner ([128260] @ py '' Creating script outline...''),
             St_subheader ([128203] @ py '' Generated Content''),
             St_markdown script,
             St_success ([9989] @ py '' Script generated! Copy and use it for your next post.'')],
            w'))"

section \<open>Vocabulary of the properties\<close>

text \<open>Two states agree on the five fields that the caller supplies.\<close>

definition inputs_agree :: "ScriptState \<Rightarrow> ScriptState \<Rightarrow> bool" where
  "inputs_agree s' s \<longleftrightarrow>
     topic s' = topic s \<and> duration s' = duration s \<and> tone s' = tone s \<and>
     platform s' = platform s \<and> language s' = language s"

text \<open>
  Stubbed networks for concrete runs. \<open>completion c\<close> is a 200 response whose first choice
  has the message content \<open>c\<close>; \<open>server_error\<close> is a 500 response with a plain-text body;
  \<open>stub_net rs\<close> answers the \<open>n\<close>-th call with the \<open>n\<close>-th entry of \<open>rs\<close> and refuses
  the connection once the list is used up.
\<close>

definition completion :: "pystr \<Rightarrow> response" where
  "completion c =
     \<lparr> status_code = 200, resp_text = [],
       resp_json = Inr (JObj [(py ''choices'',
                     JArr [JObj [(py ''message'', JObj [(py ''content'', JStr c)])]])]) \<rparr>"

definition server_error :: response where
  "server_error = \<lparr> status_code = 500, resp_text = py ''Internal Server Error'',
                     resp_json = Inl (Exn JSONDecodeError (py ''Expecting value: line 1 column 1 (char 0)'')) \<rparr>"

text \<open>A 200 response whose body is the JSON object with an empty list of choices.\<close>

definition empty_choices :: response where
  "empty_choices =
     \<lparr> status_code = 200, resp_text = [123, 34] @ py ''choices'' @ [34] @ py '': []}'',
       resp_json = Inr (JObj [(py ''choices'', JArr [])]) \<rparr>"

definition timed_out :: exn where
  "timed_out = Exn RequestException (py ''Read timed out.'')"

definition stub_net :: "(exn + response) list \<Rightarrow> network" where
  "stub_net rs n r =
     (if n < length rs then rs ! n else Inl (Exn RequestException (py ''Connection refused'')))"

definition demo_state :: ScriptState where
  "demo_state = initial_state (py ''Cats'') 60 (py ''Friendly'') [] (py ''English'')"

text \<open>Two stubs used below: one whose three replies have empty content, one that replies
  \<open>OUTLINE\<close>, \<open>SCRIPT\<close>, \<open>TAGS\<close>; and the state in which a run on the first one ends.\<close>

definition blank_net :: network where
  "blank_net = stub_net [Inr (completion []), Inr (completion []), Inr (completion [])]"

definition tags_net :: network where
  "tags_net = stub_net [Inr (completion (py ''OUTLINE'')), Inr (completion (py ''SCRIPT'')),
                        Inr (completion (py ''TAGS''))]"

definition blank_final :: ScriptState where
  "blank_final = fst (app_invoke None blank_net [] demo_state)"

section \<open>Auxiliary facts\<close>

subsection \<open>Strings\<close>

lemma py_Cons_nonempty [simp]: "py (c # cs) \<noteq> []"
  by (simp add: py_def)

lemma lstrip_eq_Nil: "lstrip t = [] \<longleftrightarrow> (\<forall>c\<in>set t. isspace c)"
  by (simp add: lstrip_def dropWhile_eq_Nil_conv)

lemma rstrip_eq_Nil: "rstrip t = [] \<longleftrightarrow> (\<forall>c\<in>set t. isspace c)"
  by (simp add: rstrip_def dropWhile_eq_Nil_conv)

lemma strip_eq_Nil: "strip t = [] \<longleftrightarrow> (\<forall>c\<in>set t. isspace c)"
proof
  assume "strip t = []"
  then have all: "\<forall>c\<in>set (lstrip t). isspace c"
    by (simp add: strip_def rstrip_eq_Nil)
  have "lstrip t = []"
  proof (rule ccontr)
    assume ne: "lstrip t \<noteq> []"
    then have "\<not> isspace (hd (lstrip t))"
      unfolding lstrip_def by (rule hd_dropWhile)
    moreover have "hd (lstrip t) \<in> set (lstrip t)"
      using ne by simp
    ultimately show False
      using all by blast
  qed
  then show "\<forall>c\<in>set t. isspace c"
    by (simp add: lstrip_eq_Nil)
next
  assume "\<forall>c\<in>set t. isspace c"
  then have "lstrip t = []"
    by (simp add: lstrip_eq_Nil)
  then show "strip t = []"
    by (simp add: strip_def rstrip_def)
qed

lemma rstrip_append:
  "rstrip (xs @ ys) = (if \<forall>c\<in>set ys. isspace c then rstrip xs else xs @ rstrip ys)"
  by (simp add: rstrip_def dropWhile_append)

lemma strip_parts:
  "\<exists>a b. t = a @ strip t @ b \<and> (\<forall>c\<in>set a. isspace c) \<and> (\<forall>c\<in>set b. isspace c)"
proof (intro exI conjI)
  let ?m = "dropWhile isspace t"
  have "rev (dropWhile isspace (rev ?m)) @ rev (takeWhile isspace (rev ?m)) =
          rev (takeWhile isspace (rev ?m) @ dropWhile isspace (rev ?m))"
    by (simp only: rev_append)
  also have "\<dots> = ?m"
    by (simp only: takeWhile_dropWhile_id rev_rev_ident)
  finally have m: "?m = rev (dropWhile isspace (rev ?m)) @ rev (takeWhile isspace (rev ?m))"
    by (rule sym)
  have "t = takeWhile isspace t @ ?m"
    by simp
  with m show "t = takeWhile isspace t @ strip t @ rev (takeWhile isspace (rev ?m))"
    by (simp add: strip_def rstrip_def lstrip_def)
  show "\<forall>c\<in>set (takeWhile isspace t). isspace c"
    by (auto dest: set_takeWhileD)
  show "\<forall>c\<in>set (rev (takeWhile isspace (rev ?m))). isspace c"
    by (auto dest: set_takeWhileD)
qed

lemma strip_ends:
  assumes "strip t \<noteq> []"
  shows "\<not> isspace (hd (strip t)) \<and> \<not> isspace (last (strip t))"
proof
  let ?m = "lstrip t"
  have r: "strip t = rev (dropWhile isspace (rev ?m))"
    by (simp add: strip_def rstrip_def)
  with assms have ne: "dropWhile isspace (rev ?m) \<noteq> []"
    by simp
  then have "\<not> isspace (hd (dropWhile isspace (rev ?m)))"
    by (rule hd_dropWhile)
  with ne r show "\<not> isspace (last (strip t))"
    by (simp add: last_rev)
  from assms have mne: "?m \<noteq> []"
    by (auto simp: strip_def rstrip_def)
  then have h: "\<not> isspace (hd ?m)"
    unfolding lstrip_def by (rule hd_dropWhile)
  from mne obtain x xs where mx: "?m = x # xs"
    by (cases ?m) auto
  with h have "\<not> isspace x"
    by simp
  then have "rstrip ([x] @ xs) = [x] @ rstrip xs \<or> rstrip ([x] @ xs) = [x]"
    unfolding rstrip_append by (simp add: rstrip_def)
  then have "hd (rstrip (x # xs)) = x"
    by auto
  with mx \<open>\<not> isspace x\<close> show "\<not> isspace (hd (strip t))"
    by (simp add: strip_def)
qed

lemma strip_plain:
  "strip (py ''OUTLINE'') = py ''OUTLINE''" "strip (py ''SCRIPT'') = py ''SCRIPT''"
  "strip (py ''TAGS'') = py ''TAGS''"
  by (simp_all add: strip_def rstrip_def lstrip_def isspace_def py_def)

lemma strip_Nil: "strip [] = []"
  by (simp add: strip_def rstrip_def lstrip_def)

lemma rstrip_snoc: "\<not> isspace c \<Longrightarrow> rstrip (xs @ [c]) = xs @ [c]"
  by (simp add: rstrip_def)

lemma rstrip_keep: "\<not> isspace c \<Longrightarrow> rstrip (xs @ [c] @ ys) = xs @ [c] @ rstrip ys"
proof -
  assume c: "\<not> isspace c"
  have "rstrip ((xs @ [c]) @ ys) =
          (if \<forall>x\<in>set ys. isspace x then rstrip (xs @ [c]) else (xs @ [c]) @ rstrip ys)"
    by (rule rstrip_append)
  moreover have "rstrip ys = []" if "\<forall>x\<in>set ys. isspace x"
    using that by (simp add: rstrip_eq_Nil)
  ultimately show ?thesis
    using c by (simp add: rstrip_snoc)
qed

lemma rstrip_spaces: "\<forall>x\<in>set ys. isspace x \<Longrightarrow> rstrip (xs @ ys) = rstrip xs"
  by (simp add: rstrip_def dropWhile_append)

lemma strip_frame:
  assumes "isspace a" and "\<not> isspace b" and "\<not> isspace c"
  shows "strip ([a] @ (b # xs) @ [c] @ ys) = (b # xs) @ [c] @ rstrip ys"
proof -
  have "lstrip ([a] @ (b # xs) @ [c] @ ys) = (b # xs) @ [c] @ ys"
    using assms(1,2) by (simp add: lstrip_def)
  then show ?thesis
    using assms(3) rstrip_keep [of c "b # xs" ys] by (simp add: strip_def)
qed

subsection \<open>Reading a state\<close>

lemma dict_get_error: "dict_get s (py ''error'') = Some (error s)"
  by (simp add: dict_get_def str_items_def py_def)

lemma dict_get_default_platform: "dict_get_default s (py ''platform'') d = platform s"
  by (simp add: dict_get_default_def dict_get_def str_items_def py_def)

lemma dict_get_default_script_outline: "dict_get_default s (py ''script_outline'') d = script_outline s"
  by (simp add: dict_get_default_def dict_get_def str_items_def py_def)

lemma dict_get_default_final_script: "dict_get_default s (py ''final_script'') d = final_script s"
  by (simp add: dict_get_default_def dict_get_def str_items_def py_def)

lemma dict_get_default_hashtags: "dict_get_default s (py ''hashtags'') d = hashtags s"
  by (simp add: dict_get_default_def dict_get_def str_items_def py_def)

lemma truthy_error: "truthy (dict_get s (py ''error'')) \<longleftrightarrow> error s \<noteq> []"
  by (simp add: dict_get_error truthy_def)

lemma demo_state_error: "error demo_state = []"
  by (simp add: demo_state_def initial_state_def)

subsection \<open>The client\<close>

lemma call_groq_api_world: "snd (call_groq_api k net w p) = w @ [build_request k p]"
  by (simp add: call_groq_api_def Let_def split: sum.splits)

lemma call_groq_api_cases:
  obtains e where "call_groq_api k net w p = (Inl e, w @ [build_request k p])"
  | v where "call_groq_api k net w p = (Inr v, w @ [build_request k p])"
  using call_groq_api_world [of k net w p]
  by (cases "call_groq_api k net w p"; cases "fst (call_groq_api k net w p)") auto

lemma call_raises:
  "net (length w) (build_request k p) = Inl e \<Longrightarrow>
   call_groq_api k net w p = (Inl e, w @ [build_request k p])"
  by (simp add: call_groq_api_def)

lemma call_non200:
  "net (length w) (build_request k p) = Inr r \<Longrightarrow> status_code r \<noteq> 200 \<Longrightarrow>
   call_groq_api k net w p =
     (Inr (py ''Error: '' @ str_int (status_code r) @ py '' - '' @ resp_text r),
      w @ [build_request k p])"
  by (simp add: call_groq_api_def)

lemma call_200:
  "net (length w) (build_request k p) = Inr r \<Longrightarrow> status_code r = 200 \<Longrightarrow>
   call_groq_api k net w p = (first_choice_text r, w @ [build_request k p])"
  by (simp add: call_groq_api_def)

lemma first_choice_text_content:
  assumes "resp_json r = Inr (JObj obj)"
    and "map_of obj (py ''choices'') = Some (JArr (JObj ch # rest))"
    and "map_of ch (py ''message'') = Some (JObj msg)"
    and "map_of msg (py ''content'') = Some (JStr c)"
  shows "first_choice_text r = Inr (strip c)"
  using assms by (simp add: first_choice_text_def and_then_def)

lemma first_choice_text_completion: "first_choice_text (completion c) = Inr (strip c)"
  by (simp add: first_choice_text_def and_then_def completion_def)

lemma call_completion:
  assumes "net (length w) (build_request k p) = Inr (completion c)"
  shows "call_groq_api k net w p = (Inr (strip c), w @ [build_request k p])"
proof -
  have "status_code (completion c) = 200"
    by (simp add: completion_def)
  with assms show ?thesis
    by (simp add: call_200 first_choice_text_completion)
qed

lemma getitem_str_Inr: "getitem_str j k = Inr v \<Longrightarrow> \<exists>kvs. j = JObj kvs \<and> map_of kvs k = Some v"
  by (cases j) (auto split: option.splits)

lemma getitem_0_Inr:
  "getitem_0 j = Inr v \<Longrightarrow>
   (\<exists>xs. j = JArr (v # xs)) \<or> (\<exists>c cs. j = JStr (c # cs) \<and> v = JStr [c])"
  by (induction j rule: getitem_0.induct) auto

lemma call_strip_Inr: "call_strip j = Inr t \<Longrightarrow> \<exists>c. j = JStr c \<and> t = strip c"
  by (cases j) auto

lemma first_choice_text_Inr:
  assumes "first_choice_text r = Inr t"
  shows "\<exists>obj ch rest msg c.
           resp_json r = Inr (JObj obj) \<and>
           map_of obj (py ''choices'') = Some (JArr (JObj ch # rest)) \<and>
           map_of ch (py ''message'') = Some (JObj msg) \<and>
           map_of msg (py ''content'') = Some (JStr c) \<and> t = strip c"
proof -
  from assms obtain j cs c0 m x where
    j: "resp_json r = Inr j" and cs: "getitem_str j (py ''choices'') = Inr cs"
    and c0: "getitem_0 cs = Inr c0" and m: "getitem_str c0 (py ''message'') = Inr m"
    and x: "getitem_str m (py ''content'') = Inr x" and t: "call_strip x = Inr t"
    by (auto simp: first_choice_text_def and_then_def split: sum.splits)
  from cs obtain obj where o: "j = JObj obj" "map_of obj (py ''choices'') = Some cs"
    by (auto dest: getitem_str_Inr)
  from m obtain ch where ch: "c0 = JObj ch" "map_of ch (py ''message'') = Some m"
    by (auto dest: getitem_str_Inr)
  from c0 ch(1) obtain rest where r: "cs = JArr (JObj ch # rest)"
    by (auto dest: getitem_0_Inr)
  from x obtain msg where msg: "m = JObj msg" "map_of msg (py ''content'') = Some x"
    by (auto dest: getitem_str_Inr)
  from t obtain c where c: "x = JStr c" "t = strip c"
    by (auto dest: call_strip_Inr)
  show ?thesis
    using j o ch r msg c by auto
qed

lemma first_choice_text_empty_choices:
  "first_choice_text empty_choices = Inl (Exn IndexError (py ''list index out of range''))"
  by (simp add: first_choice_text_def and_then_def empty_choices_def)

lemma build_request_prompt:
  "content (last (messages (json_data (build_request k p)))) = p"
  by (simp add: build_request_def)

subsection \<open>The nodes, one call outcome at a time\<close>

lemma create_outline_node_Inl:
  "fst (call_groq_api k net w (outline_prompt s)) = Inl e \<Longrightarrow>
   create_outline_node k net w s =
     (s\<lparr>error := py ''Error creating outline: '' @ exn_str e\<rparr>, w @ [build_request k (outline_prompt s)])"
  using call_groq_api_world [of k net w "outline_prompt s"]
  by (cases "call_groq_api k net w (outline_prompt s)") (simp add: create_outline_node_def)

lemma create_outline_node_Inr:
  "fst (call_groq_api k net w (outline_prompt s)) = Inr v \<Longrightarrow>
   create_outline_node k net w s =
     (s\<lparr>script_outline := v\<rparr>, w @ [build_request k (outline_prompt s)])"
  using call_groq_api_world [of k net w "outline_prompt s"]
  by (cases "call_groq_api k net w (outline_prompt s)") (simp add: create_outline_node_def)

lemma generate_script_node_skip:
  "error s \<noteq> [] \<Longrightarrow> generate_script_node k net w s = (s, w)"
  by (simp add: generate_script_node_def truthy_error)

lemma generate_script_node_Inl:
  "error s = [] \<Longrightarrow> fst (call_groq_api k net w (script_prompt s)) = Inl e \<Longrightarrow>
   generate_script_node k net w s =
     (s\<lparr>error := py ''Error generating script: '' @ exn_str e\<rparr>, w @ [build_request k (script_prompt s)])"
  using call_groq_api_world [of k net w "script_prompt s"]
  by (cases "call_groq_api k net w (script_prompt s)") (simp add: generate_script_node_def truthy_error)

lemma generate_script_node_Inr:
  "error s = [] \<Longrightarrow> fst (call_groq_api k net w (script_prompt s)) = Inr v \<Longrightarrow>
   generate_script_node k net w s =
     (s\<lparr>final_script := v\<rparr>, w @ [build_request k (script_prompt s)])"
  using call_groq_api_world [of k net w "script_prompt s"]
  by (cases "call_groq_api k net w (script_prompt s)") (simp add: generate_script_node_def truthy_error)

lemma generate_hashtags_node_skip:
  "error s \<noteq> [] \<Longrightarrow> generate_hashtags_node k net w s = (s, w)"
  by (simp add: generate_hashtags_node_def truthy_error)

lemma generate_hashtags_node_Inl:
  "error s = [] \<Longrightarrow> fst (call_groq_api k net w (hashtag_prompt s)) = Inl e \<Longrightarrow>
   generate_hashtags_node k net w s =
     (s\<lparr>error := py ''Error generating hashtags: '' @ exn_str e\<rparr>, w @ [build_request k (hashtag_prompt s)])"
  using call_groq_api_world [of k net w "hashtag_prompt s"]
  by (cases "call_groq_api k net w (hashtag_prompt s)") (simp add: generate_hashtags_node_def truthy_error)

lemma generate_hashtags_node_Inr:
  "error s = [] \<Longrightarrow> fst (call_groq_api k net w (hashtag_prompt s)) = Inr v \<Longrightarrow>
   generate_hashtags_node k net w s =
     (s\<lparr>hashtags := v\<rparr>, w @ [build_request k (hashtag_prompt s)])"
  using call_groq_api_world [of k net w "hashtag_prompt s"]
  by (cases "call_groq_api k net w (hashtag_prompt s)") (simp add: generate_hashtags_node_def truthy_error)

lemma sublist_script_prompt: "sublist (script_outline s) (script_prompt s)"
proof -
  have "script_prompt s = (py ''\<newline>'' @ py ''    Based on this outline: '') @ script_outline s @
     (py ''\<newline>'' @
     py ''    \<newline>'' @
     py ''    Write a complete '' @ str_int (duration s) @
     py ''-second social media script about '' @ [34] @ topic s @ [34] @
     py '' in '' @ language s @ py ''.\<newline>'' @
     py ''    Tone: '' @ tone s @ py ''\<newline>'' @
     py ''    Platform: '' @ dict_get_default s (py ''platform'') (py ''Any'') @ py ''\<newline>'' @
     py ''    \<newline>'' @
     py ''    Make it engaging, conversational, and appropriate for the platform.\<newline>'' @
     py ''    Include timing cues and natural pauses.\<newline>'' @
     py ''    Ensure it fits within '' @ str_int (duration s) @
     py '' seconds when spoken at normal pace.\<newline>'' @
     py ''    '')"
    by (simp only: script_prompt_def append_assoc)
  then show ?thesis
    unfolding sublist_def by blast
qed

subsection \<open>A whole run, by the step that fails first\<close>

lemma run_fault1:
  assumes "fst (call_groq_api k net w (outline_prompt s)) = Inl e"
  shows "app_invoke k net w s =
           (s\<lparr>error := py ''Error creating outline: '' @ exn_str e\<rparr>,
            w @ [build_request k (outline_prompt s)])"
  using assms
  by (simp add: app_invoke_def create_outline_node_Inl generate_script_node_skip
        generate_hashtags_node_skip)

lemma run_fault2:
  assumes "error s = []"
    and "fst (call_groq_api k net w (outline_prompt s)) = Inr v1"
    and "fst (call_groq_api k net (w @ [build_request k (outline_prompt s)])
               (script_prompt (s\<lparr>script_outline := v1\<rparr>))) = Inl e"
  shows "app_invoke k net w s =
           (s\<lparr>script_outline := v1, error := py ''Error generating script: '' @ exn_str e\<rparr>,
            w @ [build_request k (outline_prompt s),
                 build_request k (script_prompt (s\<lparr>script_outline := v1\<rparr>))])"
  using assms
  by (simp add: app_invoke_def create_outline_node_Inr generate_script_node_Inl
        generate_hashtags_node_skip)

lemma run_fault3:
  assumes "error s = []"
    and "fst (call_groq_api k net w (outline_prompt s)) = Inr v1"
    and "fst (call_groq_api k net (w @ [build_request k (outline_prompt s)])
               (script_prompt (s\<lparr>script_outline := v1\<rparr>))) = Inr v2"
    and "fst (call_groq_api k net
               (w @ [build_request k (outline_prompt s),
                     build_request k (script_prompt (s\<lparr>script_outline := v1\<rparr>))])
               (hashtag_prompt (s\<lparr>script_outline := v1, final_script := v2\<rparr>))) = Inl e"
  shows "app_invoke k net w s =
           (s\<lparr>script_outline := v1, final_script := v2,
              error := py ''Error generating hashtags: '' @ exn_str e\<rparr>,
            w @ [build_request k (outline_prompt s),
                 build_request k (script_prompt (s\<lparr>script_outline := v1\<rparr>)),
                 build_request k (hashtag_prompt (s\<lparr>script_outline := v1, final_script := v2\<rparr>))])"
  using assms
  by (simp add: app_invoke_def create_outline_node_Inr generate_script_node_Inr
        generate_hashtags_node_Inl)

lemma run_ok:
  assumes "error s = []"
    and "fst (call_groq_api k net w (outline_prompt s)) = Inr v1"
    and "fst (call_groq_api k net (w @ [build_request k (outline_prompt s)])
               (script_prompt (s\<lparr>script_outline := v1\<rparr>))) = Inr v2"
    and "fst (call_groq_api k net
               (w @ [build_request k (outline_prompt s),
                     build_request k (script_prompt (s\<lparr>script_outline := v1\<rparr>))])
               (hashtag_prompt (s\<lparr>script_outline := v1, final_script := v2\<rparr>))) = Inr v3"
  shows "app_invoke k net w s =
           (s\<lparr>script_outline := v1, final_script := v2, hashtags := v3\<rparr>,
            w @ [build_request k (outline_prompt s),
                 build_request k (script_prompt (s\<lparr>script_outline := v1\<rparr>)),
                 build_request k (hashtag_prompt (s\<lparr>script_outline := v1, final_script := v2\<rparr>))])"
  using assms
  by (simp add: app_invoke_def create_outline_node_Inr generate_script_node_Inr
        generate_hashtags_node_Inr)

subsection \<open>Concrete runs\<close>

lemma tags_run:
  assumes "error s = []"
  shows "app_invoke k tags_net [] s =
    (s\<lparr>script_outline := py ''OUTLINE'', final_script := py ''SCRIPT'', hashtags := py ''TAGS''\<rparr>,
     [build_request k (outline_prompt s),
      build_request k (script_prompt (s\<lparr>script_outline := py ''OUTLINE''\<rparr>)),
      build_request k (hashtag_prompt
        (s\<lparr>script_outline := py ''OUTLINE'', final_script := py ''SCRIPT''\<rparr>))])"
proof -
  have a: "fst (call_groq_api k tags_net [] p) = Inr (py ''OUTLINE'')"
    "fst (call_groq_api k tags_net [r] p) = Inr (py ''SCRIPT'')"
    "fst (call_groq_api k tags_net [r, r'] p) = Inr (py ''TAGS'')" for p r r'
    by (simp_all add: call_completion tags_net_def stub_net_def strip_plain)
  show ?thesis
    using run_ok [OF assms, of k tags_net "[]" "py ''OUTLINE''" "py ''SCRIPT''" "py ''TAGS''"]
    by (simp add: a)
qed

lemma blank_run:
  assumes "error s = []"
  shows "app_invoke k blank_net [] s =
    (s\<lparr>script_outline := [], final_script := [], hashtags := []\<rparr>,
     [build_request k (outline_prompt s),
      build_request k (script_prompt (s\<lparr>script_outline := []\<rparr>)),
      build_request k (hashtag_prompt (s\<lparr>script_outline := [], final_script := []\<rparr>))])"
proof -
  have a: "fst (call_groq_api k blank_net [] p) = Inr []"
    "fst (call_groq_api k blank_net [r] p) = Inr []"
    "fst (call_groq_api k blank_net [r, r'] p) = Inr []" for p r r'
    by (simp_all add: call_completion blank_net_def stub_net_def strip_Nil)
  show ?thesis
    using run_ok [OF assms, of k blank_net "[]" "[]" "[]" "[]"]
    by (simp add: a)
qed

lemma timeout_run:
  "app_invoke k (stub_net [Inl timed_out]) [] s =
     (s\<lparr>error := py ''Error creating outline: Read timed out.''\<rparr>,
      [build_request k (outline_prompt s)])"
proof -
  have "fst (call_groq_api k (stub_net [Inl timed_out]) [] (outline_prompt s)) = Inl timed_out"
    by (simp add: call_raises stub_net_def)
  then show ?thesis
    using run_fault1 [of k "stub_net [Inl timed_out]" "[]" s timed_out]
    by (simp add: timed_out_def py_def)
qed

lemma script_fault_run:
  assumes "error s = []"
  shows "app_invoke k (stub_net [Inr (completion (py ''OUTLINE'')), Inl timed_out]) [] s =
     (s\<lparr>script_outline := py ''OUTLINE'',
        error := py ''Error generating script: Read timed out.''\<rparr>,
      [build_request k (outline_prompt s),
       build_request k (script_prompt (s\<lparr>script_outline := py ''OUTLINE''\<rparr>))])"
proof -
  let ?net = "stub_net [Inr (completion (py ''OUTLINE'')), Inl timed_out]"
  have a: "fst (call_groq_api k ?net [] p) = Inr (py ''OUTLINE'')"
    "fst (call_groq_api k ?net [r] p) = Inl timed_out" for p r
    by (simp_all add: call_raises call_completion stub_net_def strip_plain)
  have m: "py ''Error generating script: '' @ exn_str timed_out =
      py ''Error generating script: Read timed out.''"
    by (simp add: timed_out_def py_def)
  show ?thesis
    using run_fault2 [OF assms, of k ?net "[]" "py ''OUTLINE''" timed_out]
    unfolding m by (simp add: a)
qed

subsection \<open>The rendered page\<close>

lemma strip_response_template:
  "strip (response_template result) =
     py ''## '' @ [128221] @ py '' Script Outline\<newline>'' @ script_outline result @
     py ''\<newline>\<newline>## '' @ [127916] @ py '' Final Script\<newline>'' @ final_script result @
     py ''\<newline>\<newline>## '' @ [127991, 65039] @ py '' Hashtags & Caption'' @
     rstrip (py ''\<newline>'' @ hashtags result)"
proof -
  let ?R = "py ''# '' @ [128221] @ py '' Script Outline\<newline>'' @ script_outline result @
     py ''\<newline>\<newline>## '' @ [127916] @ py '' Final Script\<newline>'' @ final_script result @
     py ''\<newline>\<newline>## '' @ [127991, 65039] @ py '' Hashtags & Captio''"
  let ?ys = "(py ''\<newline>'' @ hashtags result) @ py ''\<newline>        ''"
  have t: "response_template result = [10] @ (35 # ?R) @ [110] @ ?ys"
    unfolding response_template_def dict_get_default_script_outline
      dict_get_default_final_script dict_get_default_hashtags
    by (simp add: py_def)
  have sp: "isspace 10" "\<not> isspace 35" "\<not> isspace 110"
    by (simp_all add: isspace_def)
  have "\<forall>x\<in>set (py ''\<newline>        ''). isspace x"
    by (simp add: py_def isspace_def)
  then have r: "rstrip ?ys = rstrip (py ''\<newline>'' @ hashtags result)"
    by (rule rstrip_spaces)
  have "strip (response_template result) = (35 # ?R) @ [110] @ rstrip ?ys"
    unfolding t by (rule strip_frame [OF sp])
  then show ?thesis
    unfolding r by (simp add: py_def)
qed

section \<open>The claims\<close>

text \<open>
  C1. When the client call of step 1 gets a non-200 response, it returns the sentinel
  \<open>Error: <status> - <body>\<close> instead of raising. Then, on a state whose \<open>error\<close> was
  empty, step 1 stores the sentinel as the outline and leaves \<open>error\<close> empty; step 2 runs:
  it posts one more request, whose user message is the script prompt, and that prompt
  contains the sentinel verbatim. A step is skipped (state and world returned as they were)
  exactly when \<open>error\<close> is non-empty on entry, which only a raised fault or the caller can
  have caused; step 1 is never skipped.
\<close>

theorem sentinel_feeds_step_two:
  fixes k net w s r
  defines "sentinel \<equiv> py ''Error: '' @ str_int (status_code r) @ py '' - '' @ resp_text r"
  defines "s1 \<equiv> fst (create_outline_node k net w s)"
  defines "w1 \<equiv> snd (create_outline_node k net w s)"
  assumes "error s = []"
    and "net (length w) (build_request k (outline_prompt s)) = Inr r"
    and "status_code r \<noteq> 200"
  shows "script_outline s1 = sentinel \<and> error s1 = [] \<and>
         snd (generate_script_node k net w1 s1) = w1 @ [build_request k (script_prompt s1)] \<and>
         content (last (messages (json_data (last (snd (generate_script_node k net w1 s1)))))) =
           script_prompt s1 \<and>
         sublist sentinel (script_prompt s1) \<and>
         (generate_script_node k net w' s' = (s', w') \<longleftrightarrow> error s' \<noteq> []) \<and>
         (generate_hashtags_node k net w' s' = (s', w') \<longleftrightarrow> error s' \<noteq> []) \<and>
         create_outline_node k net w' s' \<noteq> (s', w')"
proof (intro conjI)
  have c1: "create_outline_node k net w s =
      (s\<lparr>script_outline := sentinel\<rparr>, w @ [build_request k (outline_prompt s)])"
    using assms(4-6) by (simp add: create_outline_node_def call_non200 sentinel_def)
  then have s1: "s1 = s\<lparr>script_outline := sentinel\<rparr>"
    and w1: "w1 = w @ [build_request k (outline_prompt s)]"
    by (simp_all add: s1_def w1_def)
  show "script_outline s1 = sentinel" "error s1 = []"
    using assms(4) by (simp_all add: s1)
  have e1: "error s1 = []"
    using assms(4) by (simp add: s1)
  show c2: "snd (generate_script_node k net w1 s1) = w1 @ [build_request k (script_prompt s1)]"
    by (rule call_groq_api_cases [of k net w1 "script_prompt s1"])
       (simp_all add: generate_script_node_def truthy_error e1)
  show "content (last (messages (json_data (last (snd (generate_script_node k net w1 s1)))))) =
           script_prompt s1"
    by (simp add: c2 build_request_prompt)
  show "sublist sentinel (script_prompt s1)"
    using sublist_script_prompt [of s1] by (simp add: s1)
  show "generate_script_node k net w' s' = (s', w') \<longleftrightarrow> error s' \<noteq> []"
    using call_groq_api_world [of k net w' "script_prompt s'"]
    by (cases "call_groq_api k net w' (script_prompt s')"; cases "fst (call_groq_api k net w' (script_prompt s'))")
       (auto simp: generate_script_node_def truthy_error)
  show "generate_hashtags_node k net w' s' = (s', w') \<longleftrightarrow> error s' \<noteq> []"
    using call_groq_api_world [of k net w' "hashtag_prompt s'"]
    by (cases "call_groq_api k net w' (hashtag_prompt s')"; cases "fst (call_groq_api k net w' (hashtag_prompt s'))")
       (auto simp: generate_hashtags_node_def truthy_error)
  show "create_outline_node k net w' s' \<noteq> (s', w')"
    using call_groq_api_world [of k net w' "outline_prompt s'"]
    by (cases "call_groq_api k net w' (outline_prompt s')"; cases "fst (call_groq_api k net w' (outline_prompt s'))")
       (auto simp: create_outline_node_def)
qed

theorem sentinel_feeds_step_two_witness:
  "error demo_state = [] \<and>
   stub_net [Inr server_error] (length []) (build_request None (outline_prompt demo_state)) =
     Inr server_error \<and>
   status_code server_error \<noteq> 200 \<and>
   script_outline (fst (create_outline_node None (stub_net [Inr server_error]) [] demo_state)) =
     py ''Error: 500 - Internal Server Error'' \<and>
   sublist (py ''Error: 500 - Internal Server Error'')
     (script_prompt (fst (create_outline_node None (stub_net [Inr server_error]) [] demo_state))) \<and>
   length (snd (generate_script_node None (stub_net [Inr server_error])
     (snd (create_outline_node None (stub_net [Inr server_error]) [] demo_state))
     (fst (create_outline_node None (stub_net [Inr server_error]) [] demo_state)))) = 2"
proof -
  let ?net = "stub_net [Inr server_error]"
  have n: "?net (length []) (build_request None (outline_prompt demo_state)) = Inr server_error"
    by (simp add: stub_net_def)
  have st: "status_code server_error \<noteq> 200"
    by (simp add: server_error_def)
  have t: "py ''Error: '' @ str_int (status_code server_error) @ py '' - '' @
             resp_text server_error = py ''Error: 500 - Internal Server Error''"
    by (simp add: server_error_def str_int_def str_nat.simps py_def)
  have c1: "create_outline_node None ?net [] demo_state =
      (demo_state\<lparr>script_outline := py ''Error: 500 - Internal Server Error''\<rparr>,
       [build_request None (outline_prompt demo_state)])"
    using call_non200 [of ?net "[]" None "outline_prompt demo_state" server_error] n st t
    by (simp add: create_outline_node_def)
  show ?thesis
    using sentinel_feeds_step_two [where s = demo_state and net = ?net and w = "[]"
        and k = None and r = server_error, OF demo_state_error n st]
    by (simp add: stub_net_def st demo_state_error t c1)
qed

text \<open>
  C2, as stated, fails: the status 200 alone does not make the client return the content
  of the first choice. For a 200 response whose body is \<open>{"choices": []}\<close> the
  expression \<open>response.json()["choices"][0]\<close> raises \<open>IndexError\<close>, so the call
  raises instead of returning a string.
\<close>

theorem empty_choices_raises:
  "status_code empty_choices = 200 \<and>
   fst (call_groq_api None (stub_net [Inr empty_choices]) [] (py ''Say hi'')) =
     Inl (Exn IndexError (py ''list index out of range''))"
proof
  show st: "status_code empty_choices = 200"
    by (simp add: empty_choices_def)
  have "stub_net [Inr empty_choices] (length []) (build_request None (py ''Say hi'')) =
      Inr empty_choices"
    by (simp add: stub_net_def)
  then show "fst (call_groq_api None (stub_net [Inr empty_choices]) [] (py ''Say hi'')) =
     Inl (Exn IndexError (py ''list index out of range''))"
    using st by (simp add: call_200 first_choice_text_empty_choices)
qed

text \<open>
  C2, amended. For every prompt: when the response has status 200 and its JSON body holds
  a string at \<open>choices[0].message.content\<close>, \<open>call_groq_api\<close> returns that string
  trimmed (the content is the returned text between two runs of whitespace, and the
  returned text neither starts nor ends with whitespace); a 200 response makes it return
  only in this case, and for every other body of a 200 response it raises; for every
  status other than 200 it returns \<open>Error: <status> - <body>\<close>. The generated text and
  the error text are ordinary return values (\<open>Inr\<close>) of the same string type.
\<close>

theorem client_text_sentinel_or_raise:
  assumes "net (length w) (build_request k prompt) = Inr r"
  shows "(status_code r = 200 \<and> resp_json r = Inr (JObj obj) \<and>
          map_of obj (py ''choices'') = Some (JArr (JObj ch # rest)) \<and>
          map_of ch (py ''message'') = Some (JObj msg) \<and>
          map_of msg (py ''content'') = Some (JStr c) \<longrightarrow>
            fst (call_groq_api k net w prompt) = Inr (strip c) \<and>
            (\<exists>a b. c = a @ strip c @ b \<and> (\<forall>x\<in>set a. isspace x) \<and> (\<forall>x\<in>set b. isspace x)) \<and>
            (strip c \<noteq> [] \<longrightarrow> \<not> isspace (hd (strip c)) \<and> \<not> isspace (last (strip c)))) \<and>
         (status_code r = 200 \<and> fst (call_groq_api k net w prompt) = Inr t \<longrightarrow>
            (\<exists>obj' ch' rest' msg' c'.
               resp_json r = Inr (JObj obj') \<and>
               map_of obj' (py ''choices'') = Some (JArr (JObj ch' # rest')) \<and>
               map_of ch' (py ''message'') = Some (JObj msg') \<and>
               map_of msg' (py ''content'') = Some (JStr c') \<and> t = strip c')) \<and>
         (status_code r = 200 \<and>
          \<not> (\<exists>obj' ch' rest' msg' c'.
               resp_json r = Inr (JObj obj') \<and>
               map_of obj' (py ''choices'') = Some (JArr (JObj ch' # rest')) \<and>
               map_of ch' (py ''message'') = Some (JObj msg') \<and>
               map_of msg' (py ''content'') = Some (JStr c')) \<longrightarrow>
            (\<exists>e. fst (call_groq_api k net w prompt) = Inl e)) \<and>
         (status_code r \<noteq> 200 \<longrightarrow>
            fst (call_groq_api k net w prompt) =
              Inr (py ''Error: '' @ str_int (status_code r) @ py '' - '' @ resp_text r))"
proof (intro conjI impI)
  assume "status_code r \<noteq> 200"
  with assms show "fst (call_groq_api k net w prompt) =
      Inr (py ''Error: '' @ str_int (status_code r) @ py '' - '' @ resp_text r)"
    by (simp add: call_non200)
next
  assume ok: "status_code r = 200 \<and> resp_json r = Inr (JObj obj) \<and>
          map_of obj (py ''choices'') = Some (JArr (JObj ch # rest)) \<and>
          map_of ch (py ''message'') = Some (JObj msg) \<and>
          map_of msg (py ''content'') = Some (JStr c)"
  then have "first_choice_text r = Inr (strip c)"
    by (intro first_choice_text_content [of r obj ch rest msg c]) simp_all
  with assms ok show "fst (call_groq_api k net w prompt) = Inr (strip c)"
    by (simp add: call_200)
  show "\<exists>a b. c = a @ strip c @ b \<and> (\<forall>x\<in>set a. isspace x) \<and> (\<forall>x\<in>set b. isspace x)"
    by (rule strip_parts)
  show "\<not> isspace (hd (strip c))" if "strip c \<noteq> []"
    using strip_ends [OF that] by simp
  show "\<not> isspace (last (strip c))" if "strip c \<noteq> []"
    using strip_ends [OF that] by simp
next
  assume ret: "status_code r = 200 \<and> fst (call_groq_api k net w prompt) = Inr t"
  then have "call_groq_api k net w prompt = (first_choice_text r, w @ [build_request k prompt])"
    using assms by (intro call_200) simp_all
  with ret have "first_choice_text r = Inr t"
    by simp
  then show "\<exists>obj' ch' rest' msg' c'.
               resp_json r = Inr (JObj obj') \<and>
               map_of obj' (py ''choices'') = Some (JArr (JObj ch' # rest')) \<and>
               map_of ch' (py ''message'') = Some (JObj msg') \<and>
               map_of msg' (py ''content'') = Some (JStr c') \<and> t = strip c'"
    by (rule first_choice_text_Inr)
next
  assume no: "status_code r = 200 \<and>
          \<not> (\<exists>obj' ch' rest' msg' c'.
               resp_json r = Inr (JObj obj') \<and>
               map_of obj' (py ''choices'') = Some (JArr (JObj ch' # rest')) \<and>
               map_of ch' (py ''message'') = Some (JObj msg') \<and>
               map_of msg' (py ''content'') = Some (JStr c'))"
  have "\<exists>e. first_choice_text r = Inl e"
  proof (cases "first_choice_text r")
    case (Inl e)
    then show ?thesis by blast
  next
    case (Inr t')
    from first_choice_text_Inr [OF this] no show ?thesis
      by blast
  qed
  moreover have "call_groq_api k net w prompt =
      (first_choice_text r, w @ [build_request k prompt])"
    using assms no by (intro call_200) simp_all
  ultimately show "\<exists>e. fst (call_groq_api k net w prompt) = Inl e"
    by simp
qed

theorem client_text_sentinel_or_raise_witness:
  "fst (call_groq_api None (stub_net [Inr (completion (py ''  Hi there!\<newline>''))]) []
         (py ''Say hi'')) = Inr (py ''Hi there!'') \<and>
   (\<exists>e. fst (call_groq_api None (stub_net [Inr empty_choices]) [] (py ''Say hi'')) = Inl e) \<and>
   fst (call_groq_api None (stub_net [Inr server_error]) [] (py ''Say hi'')) =
     Inr (py ''Error: 500 - Internal Server Error'')"
proof (intro conjI)
  let ?net = "stub_net [Inr (completion (py ''  Hi there!\<newline>''))]"
  have n: "?net (length []) (build_request None (py ''Say hi'')) =
             Inr (completion (py ''  Hi there!\<newline>''))"
    by (simp add: stub_net_def)
  have s: "strip (py ''  Hi there!\<newline>'') = py ''Hi there!''"
    by (simp add: strip_def rstrip_def lstrip_def isspace_def py_def)
  have h: "status_code (completion (py ''  Hi there!\<newline>'')) = 200 \<and>
      resp_json (completion (py ''  Hi there!\<newline>'')) =
        Inr (JObj [(py ''choices'', JArr [JObj [(py ''message'',
                        JObj [(py ''content'', JStr (py ''  Hi there!\<newline>''))])]])]) \<and>
      map_of [(py ''choices'', JArr [JObj [(py ''message'',
                        JObj [(py ''content'', JStr (py ''  Hi there!\<newline>''))])]])]
        (py ''choices'') =
        Some (JArr (JObj [(py ''message'',
                        JObj [(py ''content'', JStr (py ''  Hi there!\<newline>''))])] # [])) \<and>
      map_of [(py ''message'', JObj [(py ''content'', JStr (py ''  Hi there!\<newline>''))])]
        (py ''message'') = Some (JObj [(py ''content'', JStr (py ''  Hi there!\<newline>''))]) \<and>
      map_of [(py ''content'', JStr (py ''  Hi there!\<newline>''))] (py ''content'') =
        Some (JStr (py ''  Hi there!\<newline>''))"
    by (simp add: completion_def)
  from client_text_sentinel_or_raise [where net = ?net and w = "[]" and k = None
          and prompt = "py ''Say hi''" and r = "completion (py ''  Hi there!\<newline>'')"
          and obj = "[(py ''choices'', JArr [JObj [(py ''message'',
                        JObj [(py ''content'', JStr (py ''  Hi there!\<newline>''))])]])]"
          and ch = "[(py ''message'', JObj [(py ''content'', JStr (py ''  Hi there!\<newline>''))])]"
          and rest = "[]"
          and msg = "[(py ''content'', JStr (py ''  Hi there!\<newline>''))]"
          and c = "py ''  Hi there!\<newline>''", OF n, THEN conjunct1, THEN mp, OF h,
          THEN conjunct1]
  have "fst (call_groq_api None ?net [] (py ''Say hi'')) =
      Inr (strip (py ''  Hi there!\<newline>''))" .
  then show "fst (call_groq_api None ?net [] (py ''Say hi'')) = Inr (py ''Hi there!'')"
    by (simp only: s)
next
  let ?net = "stub_net [Inr empty_choices]"
  have n: "?net (length []) (build_request None (py ''Say hi'')) = Inr empty_choices"
    by (simp add: stub_net_def)
  have st: "status_code empty_choices = 200"
    by (simp add: empty_choices_def)
  have no: "\<not> (\<exists>obj' ch' rest' msg' c'.
               resp_json empty_choices = Inr (JObj obj') \<and>
               map_of obj' (py ''choices'') = Some (JArr (JObj ch' # rest')) \<and>
               map_of ch' (py ''message'') = Some (JObj msg') \<and>
               map_of msg' (py ''content'') = Some (JStr c'))"
    by (auto simp: empty_choices_def)
  from client_text_sentinel_or_raise [where net = ?net and w = "[]" and k = None
        and prompt = "py ''Say hi''" and r = empty_choices, OF n,
        THEN conjunct2, THEN conjunct2, THEN conjunct1, THEN mp, OF conjI [OF st no]]
  show "\<exists>e. fst (call_groq_api None ?net [] (py ''Say hi'')) = Inl e" .
next
  let ?net = "stub_net [Inr server_error]"
  have n: "?net (length []) (build_request None (py ''Say hi'')) = Inr server_error"
    by (simp add: stub_net_def)
  have st: "status_code server_error \<noteq> 200"
    by (simp add: server_error_def)
  have t: "py ''Error: '' @ str_int (status_code server_error) @ py '' - '' @
             resp_text server_error = py ''Error: 500 - Internal Server Error''"
    by (simp add: server_error_def str_int_def str_nat.simps py_def)
  from client_text_sentinel_or_raise [where net = ?net and w = "[]" and k = None
        and prompt = "py ''Say hi''" and r = server_error, OF n,
        THEN conjunct2, THEN conjunct2, THEN conjunct2, THEN mp, OF st]
  have "fst (call_groq_api None ?net [] (py ''Say hi'')) =
      Inr (py ''Error: '' @ str_int (status_code server_error) @ py '' - '' @
           resp_text server_error)" .
  then show "fst (call_groq_api None ?net [] (py ''Say hi'')) =
          Inr (py ''Error: 500 - Internal Server Error'')"
    by (simp only: t)
qed

text \<open>
  C3, as stated, fails in its second part: after a fault first raised at step 2,
  \<open>hashtags\<close> is not the only empty content field. The failing step does not write its own
  field, so \<open>final_script\<close> is empty too. In the run below step 1 is answered with
  \<open>OUTLINE\<close> and the call of step 2 times out.
\<close>

theorem script_fault_leaves_script_empty:
  "final_script (fst (app_invoke None
      (stub_net [Inr (completion (py ''OUTLINE'')), Inl timed_out]) [] demo_state)) = [] \<and>
   \<not> (script_outline (fst (app_invoke None
          (stub_net [Inr (completion (py ''OUTLINE'')), Inl timed_out]) [] demo_state)) \<noteq> [] \<and>
       final_script (fst (app_invoke None
          (stub_net [Inr (completion (py ''OUTLINE'')), Inl timed_out]) [] demo_state)) \<noteq> [] \<and>
       hashtags (fst (app_invoke None
          (stub_net [Inr (completion (py ''OUTLINE'')), Inl timed_out]) [] demo_state)) = [] \<and>
       error (fst (app_invoke None
          (stub_net [Inr (completion (py ''OUTLINE'')), Inl timed_out]) [] demo_state)) \<noteq> [])"
  by (simp add: script_fault_run [OF demo_state_error])
     (simp add: demo_state_def initial_state_def)

text \<open>
  C3, amended. In a run of the pipeline from the initial state: if the client raises at
  step 1, \<open>final_script\<close> and \<open>hashtags\<close> are empty and \<open>error\<close> is non-empty at
  completion; if it first raises at step 2, the outline holds the reply of step 1,
  \<open>final_script\<close> and \<open>hashtags\<close> are empty and \<open>error\<close> is non-empty; if it first raises
  at step 3, the outline and the script hold the replies of steps 1 and 2 and \<open>error\<close> is
  non-empty. On a state whose \<open>error\<close> is non-empty the script step and the hashtags step
  return the state and the world unchanged.
\<close>

theorem fault_leaves_later_fields_empty:
  fixes k net w topic_v duration_v tone_v platform_v language_v
  defines "s0 \<equiv> initial_state topic_v duration_v tone_v platform_v language_v"
  defines "r1 \<equiv> build_request k (outline_prompt s0)"
  defines "final \<equiv> fst (app_invoke k net w s0)"
  shows
  "(fst (call_groq_api k net w (outline_prompt s0)) = Inl e \<longrightarrow>
      final_script final = [] \<and> hashtags final = [] \<and> error final \<noteq> []) \<and>
   (fst (call_groq_api k net w (outline_prompt s0)) = Inr v1 \<and>
    fst (call_groq_api k net (w @ [r1]) (script_prompt (s0\<lparr>script_outline := v1\<rparr>))) = Inl e \<longrightarrow>
      script_outline final = v1 \<and> final_script final = [] \<and> hashtags final = [] \<and>
      error final \<noteq> []) \<and>
   (fst (call_groq_api k net w (outline_prompt s0)) = Inr v1 \<and>
    fst (call_groq_api k net (w @ [r1]) (script_prompt (s0\<lparr>script_outline := v1\<rparr>))) = Inr v2 \<and>
    fst (call_groq_api k net
          (w @ [r1, build_request k (script_prompt (s0\<lparr>script_outline := v1\<rparr>))])
          (hashtag_prompt (s0\<lparr>script_outline := v1, final_script := v2\<rparr>))) = Inl e \<longrightarrow>
      script_outline final = v1 \<and> final_script final = v2 \<and> error final \<noteq> []) \<and>
   (error s \<noteq> [] \<longrightarrow>
      generate_script_node k net w' s = (s, w') \<and> generate_hashtags_node k net w' s = (s, w'))"
proof -
  have e0: "error s0 = []"
    by (simp add: s0_def initial_state_def)
  have f0: "final_script s0 = []" "hashtags s0 = []"
    by (simp_all add: s0_def initial_state_def)
  show ?thesis
    unfolding final_def r1_def
    by (intro conjI impI)
       (simp_all add: run_fault1 run_fault2 [OF e0] run_fault3 [OF e0] f0
          generate_script_node_skip generate_hashtags_node_skip)
qed

theorem fault_leaves_later_fields_empty_witness:
  "final_script (fst (app_invoke None (stub_net [Inl timed_out]) [] demo_state)) = [] \<and>
   hashtags (fst (app_invoke None (stub_net [Inl timed_out]) [] demo_state)) = [] \<and>
   error (fst (app_invoke None (stub_net [Inl timed_out]) [] demo_state)) \<noteq> [] \<and>
   script_outline (fst (app_invoke None
     (stub_net [Inr (completion (py ''OUTLINE'')), Inl timed_out]) [] demo_state)) = py ''OUTLINE'' \<and>
   final_script (fst (app_invoke None
     (stub_net [Inr (completion (py ''OUTLINE'')), Inl timed_out]) [] demo_state)) = [] \<and>
   hashtags (fst (app_invoke None
     (stub_net [Inr (completion (py ''OUTLINE'')), Inl timed_out]) [] demo_state)) = [] \<and>
   error (fst (app_invoke None
     (stub_net [Inr (completion (py ''OUTLINE'')), Inl timed_out]) [] demo_state)) \<noteq> [] \<and>
   final_script (fst (app_invoke None
     (stub_net [Inr (completion (py ''OUTLINE'')), Inr (completion (py ''SCRIPT'')),
                Inl timed_out]) [] demo_state)) = py ''SCRIPT'' \<and>
   error (fst (app_invoke None
     (stub_net [Inr (completion (py ''OUTLINE'')), Inr (completion (py ''SCRIPT'')),
                Inl timed_out]) [] demo_state)) \<noteq> [] \<and>
   generate_script_node None (stub_net [])  []
     (demo_state\<lparr>error := py ''Error creating outline: Read timed out.''\<rparr>) =
     (demo_state\<lparr>error := py ''Error creating outline: Read timed out.''\<rparr>, []) \<and>
   generate_hashtags_node None (stub_net []) []
     (demo_state\<lparr>error := py ''Error creating outline: Read timed out.''\<rparr>) =
     (demo_state\<lparr>error := py ''Error creating outline: Read timed out.''\<rparr>, [])"
proof -
  let ?n1 = "stub_net [Inl timed_out]"
  let ?n2 = "stub_net [Inr (completion (py ''OUTLINE'')), Inl timed_out]"
  let ?n3 = "stub_net [Inr (completion (py ''OUTLINE'')), Inr (completion (py ''SCRIPT'')),
                Inl timed_out]"
  have a1: "fst (call_groq_api None ?n1 [] p) = Inl timed_out" for p
    by (simp add: call_raises stub_net_def)
  have a2: "fst (call_groq_api None ?n2 [] p) = Inr (py ''OUTLINE'')"
    "fst (call_groq_api None ?n2 [r] p) = Inl timed_out" for p r
    by (simp_all add: call_raises call_completion stub_net_def strip_plain)
  have a3: "fst (call_groq_api None ?n3 [] p) = Inr (py ''OUTLINE'')"
    "fst (call_groq_api None ?n3 [r] p) = Inr (py ''SCRIPT'')"
    "fst (call_groq_api None ?n3 [r, r'] p) = Inl timed_out" for p r r'
    by (simp_all add: call_raises call_completion stub_net_def strip_plain)
  have b1: "final_script (fst (app_invoke None ?n1 [] demo_state)) = [] \<and>
      hashtags (fst (app_invoke None ?n1 [] demo_state)) = [] \<and>
      error (fst (app_invoke None ?n1 [] demo_state)) \<noteq> []"
    using fault_leaves_later_fields_empty [where k = None and net = ?n1 and w = "[]"
        and topic_v = "py ''Cats''" and duration_v = 60 and tone_v = "py ''Friendly''"
        and platform_v = "[]" and language_v = "py ''English''" and e = timed_out]
    by (simp add: a1 demo_state_def)
  have b2: "script_outline (fst (app_invoke None ?n2 [] demo_state)) = py ''OUTLINE'' \<and>
      final_script (fst (app_invoke None ?n2 [] demo_state)) = [] \<and>
      hashtags (fst (app_invoke None ?n2 [] demo_state)) = [] \<and>
      error (fst (app_invoke None ?n2 [] demo_state)) \<noteq> []"
    using fault_leaves_later_fields_empty [where k = None and net = ?n2 and w = "[]"
        and topic_v = "py ''Cats''" and duration_v = 60 and tone_v = "py ''Friendly''"
        and platform_v = "[]" and language_v = "py ''English''" and e = timed_out
        and ?v1.0 = "py ''OUTLINE''"]
    by (simp add: a2 demo_state_def)
  have b3: "final_script (fst (app_invoke None ?n3 [] demo_state)) = py ''SCRIPT'' \<and>
      error (fst (app_invoke None ?n3 [] demo_state)) \<noteq> []"
    using fault_leaves_later_fields_empty [where k = None and net = ?n3 and w = "[]"
        and topic_v = "py ''Cats''" and duration_v = 60 and tone_v = "py ''Friendly''"
        and platform_v = "[]" and language_v = "py ''English''" and e = timed_out
        and ?v1.0 = "py ''OUTLINE''" and ?v2.0 = "py ''SCRIPT''"]
    by (simp add: a3 demo_state_def)
  have b4: "generate_script_node None (stub_net [])  []
     (demo_state\<lparr>error := py ''Error creating outline: Read timed out.''\<rparr>) =
     (demo_state\<lparr>error := py ''Error creating outline: Read timed out.''\<rparr>, []) \<and>
   generate_hashtags_node None (stub_net []) []
     (demo_state\<lparr>error := py ''Error creating outline: Read timed out.''\<rparr>) =
     (demo_state\<lparr>error := py ''Error creating outline: Read timed out.''\<rparr>, [])"
    using fault_leaves_later_fields_empty [where k = None and net = "stub_net []" and w' = "[]"
        and s = "demo_state\<lparr>error := py ''Error creating outline: Read timed out.''\<rparr>"]
    by simp
  from b1 b2 b3 b4 show ?thesis
    by simp
qed

text \<open>
  C4, as stated, fails: the client may return the empty string (a 200 reply whose content
  is empty or blank), and then a run completes with \<open>error\<close> empty and content fields
  empty. In the run below all three replies are empty: neither alternative of the claim
  holds of the final state.
\<close>

theorem blank_replies_leave_fields_empty:
  "\<not> ((script_outline blank_final \<noteq> [] \<and> final_script blank_final \<noteq> [] \<and>
        hashtags blank_final \<noteq> [] \<and> error blank_final = []) \<noteq> (error blank_final \<noteq> []))"
  by (simp add: blank_final_def blank_run [OF demo_state_error] demo_state_error)

text \<open>
  C4, amended. At completion exactly one of the following holds: \<open>error\<close> is empty and
  each of the three content fields holds the string that the client returned at its step
  (a string that may be empty), or \<open>error\<close> is non-empty.
\<close>

theorem completion_alternatives:
  fixes k net w topic_v duration_v tone_v platform_v language_v
  defines "s0 \<equiv> initial_state topic_v duration_v tone_v platform_v language_v"
  defines "final \<equiv> fst (app_invoke k net w s0)"
  defines "r1 \<equiv> build_request k (outline_prompt s0)"
  defines "s1 \<equiv> s0\<lparr>script_outline := script_outline final\<rparr>"
  defines "r2 \<equiv> build_request k (script_prompt s1)"
  defines "s2 \<equiv> s1\<lparr>final_script := final_script final\<rparr>"
  shows "(error final = [] \<and>
          fst (call_groq_api k net w (outline_prompt s0)) = Inr (script_outline final) \<and>
          fst (call_groq_api k net (w @ [r1]) (script_prompt s1)) = Inr (final_script final) \<and>
          fst (call_groq_api k net (w @ [r1, r2]) (hashtag_prompt s2)) = Inr (hashtags final))
         \<noteq> (error final \<noteq> [])"
proof -
  have e0: "error s0 = []"
    by (simp add: s0_def initial_state_def)
  show ?thesis
  proof (cases "fst (call_groq_api k net w (outline_prompt s0))")
    case (Inl e)
    then show ?thesis
      by (simp add: final_def run_fault1)
  next
    case c1: (Inr v1)
    let ?s1 = "s0\<lparr>script_outline := v1\<rparr>"
    show ?thesis
    proof (cases "fst (call_groq_api k net (w @ [r1]) (script_prompt ?s1))")
      case (Inl e)
      then show ?thesis
        using c1 by (simp add: final_def r1_def run_fault2 [OF e0])
    next
      case c2: (Inr v2)
      let ?s2 = "?s1\<lparr>final_script := v2\<rparr>"
      let ?r2 = "build_request k (script_prompt ?s1)"
      show ?thesis
      proof (cases "fst (call_groq_api k net (w @ [r1, ?r2]) (hashtag_prompt ?s2))")
        case (Inl e)
        then show ?thesis
          using c1 c2 by (simp add: final_def r1_def run_fault3 [OF e0])
      next
        case c3: (Inr v3)
        have f: "app_invoke k net w s0 =
            (s0\<lparr>script_outline := v1, final_script := v2, hashtags := v3\<rparr>, w @ [r1, ?r2,
               build_request k (hashtag_prompt ?s2)])"
          using c1 c2 c3 by (simp add: r1_def run_ok [OF e0])
        show ?thesis
          using c1 c2 c3 e0
          by (simp add: final_def f s1_def s2_def r2_def)
      qed
    qed
  qed
qed

text \<open>
  C5. The rendered output of a run: when \<open>error\<close> of the final state is non-empty, the
  cross mark, a space and the error text, and nothing else; otherwise the heading of the
  outline, the outline, the heading of the script, the script, the heading of the hashtags
  and the hashtags, in this order, with whitespace at the very end removed. It is a function
  of the inputs and of the replies: with the stub that replies \<open>OUTLINE\<close>, \<open>SCRIPT\<close>,
  \<open>TAGS\<close> it is the one string given below.
\<close>

theorem rendered_output:
  fixes k net w topic_v duration_v tone_v platform_v language_v
  defines "result \<equiv>
    fst (app_invoke k net w (initial_state topic_v duration_v tone_v platform_v language_v))"
  defines "out \<equiv> fst (generate_script k net w topic_v duration_v tone_v platform_v language_v)"
  shows "(error result \<noteq> [] \<longrightarrow> out = [10060] @ py '' '' @ error result) \<and>
         (error result = [] \<longrightarrow>
            out = py ''## '' @ [128221] @ py '' Script Outline\<newline>'' @ script_outline result @
                  py ''\<newline>\<newline>## '' @ [127916] @ py '' Final Script\<newline>'' @
                  final_script result @
                  py ''\<newline>\<newline>## '' @ [127991, 65039] @ py '' Hashtags & Caption'' @
                  rstrip (py ''\<newline>'' @ hashtags result))"
proof -
  obtain s3 w3 where run:
    "app_invoke k net w (initial_state topic_v duration_v tone_v platform_v language_v) = (s3, w3)"
    by (cases "app_invoke k net w (initial_state topic_v duration_v tone_v platform_v language_v)")
  then have res: "result = s3"
    by (simp add: result_def)
  have "out = (if error s3 \<noteq> [] then [10060] @ py '' '' @ error s3
               else strip (response_template s3))"
    by (simp add: out_def generate_script_def run truthy_error)
  then show ?thesis
    by (simp add: res strip_response_template)
qed

theorem rendered_output_witness:
  "error (fst (app_invoke None tags_net []
      (initial_state (py ''Cats'') 60 (py ''Friendly'') [] (py ''English'')))) = [] \<and>
   fst (generate_script None tags_net [] (py ''Cats'') 60 (py ''Friendly'') [] (py ''English'')) =
     py ''## '' @ [128221] @ py '' Script Outline\<newline>OUTLINE\<newline>\<newline>## '' @ [127916] @
     py '' Final Script\<newline>SCRIPT\<newline>\<newline>## '' @ [127991, 65039] @
     py '' Hashtags & Caption\<newline>TAGS'' \<and>
   error (fst (app_invoke None (stub_net [Inl timed_out]) []
      (initial_state (py ''Cats'') 60 (py ''Friendly'') [] (py ''English'')))) \<noteq> [] \<and>
   fst (generate_script None (stub_net [Inl timed_out]) [] (py ''Cats'') 60 (py ''Friendly'') []
      (py ''English'')) = [10060] @ py '' Error creating outline: Read timed out.''"
proof -
  let ?s0 = "initial_state (py ''Cats'') 60 (py ''Friendly'') [] (py ''English'')"
  have e0: "error ?s0 = []"
    by (simp add: initial_state_def)
  have r: "rstrip (py ''\<newline>'' @ py ''TAGS'') = py ''\<newline>TAGS''"
    by (simp add: rstrip_def isspace_def py_def)
  have a: "fst (generate_script None tags_net [] (py ''Cats'') 60 (py ''Friendly'') [] (py ''English'')) =
     py ''## '' @ [128221] @ py '' Script Outline\<newline>OUTLINE\<newline>\<newline>## '' @ [127916] @
     py '' Final Script\<newline>SCRIPT\<newline>\<newline>## '' @ [127991, 65039] @
     py '' Hashtags & Caption\<newline>TAGS''"
    using rendered_output [where k = None and net = tags_net and w = "[]"
        and topic_v = "py ''Cats''" and duration_v = 60 and tone_v = "py ''Friendly''"
        and platform_v = "[]" and language_v = "py ''English''"]
    by (simp add: tags_run [OF e0] e0 r) (simp add: py_def)
  have b: "fst (generate_script None (stub_net [Inl timed_out]) [] (py ''Cats'') 60
      (py ''Friendly'') [] (py ''English'')) = [10060] @ py '' Error creating outline: Read timed out.''"
    using rendered_output [where k = None and net = "stub_net [Inl timed_out]" and w = "[]"
        and topic_v = "py ''Cats''" and duration_v = 60 and tone_v = "py ''Friendly''"
        and platform_v = "[]" and language_v = "py ''English''"]
    by (simp add: timeout_run) (simp add: py_def)
  show ?thesis
    using a b by (simp add: tags_run [OF e0] timeout_run e0)
qed

text \<open>
  C6. The outline prompt embeds the value of \<open>platform\<close> as it is: the default \<open>Any\<close>
  of \<open>state.get('platform', 'Any')\<close> applies only to a state without the key, and a state
  always has it. With the empty platform (the first option of the form) the line reads
  \<open>Platform: \<close> and the text \<open>Any\<close> occurs nowhere in the prompt.
\<close>

theorem empty_platform_prompt:
  "outline_prompt s =
     py ''\<newline>    Create a detailed outline for a '' @ str_int (duration s) @
     py ''-second social media script about '' @ [34] @ topic s @ [34] @
     py '' in '' @ language s @ py ''.\<newline>    Tone: '' @ tone s @
     py ''\<newline>    Platform: '' @ platform s @
     py ''\<newline>    \<newline>    Provide a structured outline with:\<newline>'' @
     py ''    1. Hook/Intro (first 5-10 seconds)\<newline>'' @
     py ''    2. Main content points (middle section)\<newline>'' @
     py ''    3. Call-to-action (last 5-10 seconds)\<newline>    \<newline>'' @
     py ''    Consider the platform's audience and format requirements.\<newline>    '' \<and>
   platform demo_state = [] \<and>
   \<not> sublist (py ''Any'') (outline_prompt demo_state)"
proof (intro conjI)
  show "outline_prompt s =
     py ''\<newline>    Create a detailed outline for a '' @ str_int (duration s) @
     py ''-second social media script about '' @ [34] @ topic s @ [34] @
     py '' in '' @ language s @ py ''.\<newline>    Tone: '' @ tone s @
     py ''\<newline>    Platform: '' @ platform s @
     py ''\<newline>    \<newline>    Provide a structured outline with:\<newline>'' @
     py ''    1. Hook/Intro (first 5-10 seconds)\<newline>'' @
     py ''    2. Main content points (middle section)\<newline>'' @
     py ''    3. Call-to-action (last 5-10 seconds)\<newline>    \<newline>'' @
     py ''    Consider the platform's audience and format requirements.\<newline>    ''"
    unfolding outline_prompt_def dict_get_default_platform
    by (simp add: py_def)
  show "platform demo_state = []"
    by (simp add: demo_state_def initial_state_def)
  show "\<not> sublist (py ''Any'') (outline_prompt demo_state)"
    by code_simp
qed

text \<open>
  C7, as stated, fails: with the credential absent (\<open>GROQ_API_KEY\<close> is \<open>None\<close>) a
  submission runs as usual. Three requests are posted, the first with the header
  \<open>Authorization: Bearer None\<close>, and the page shows the generated content, not a
  configuration error.
\<close>

theorem absent_key_still_posts:
  "length (snd (on_submitted None tags_net [] (py ''Cats'') 60 (py ''Friendly'') []
     (py ''English''))) = 3 \<and>
   map_of (headers (hd (snd (on_submitted None tags_net [] (py ''Cats'') 60 (py ''Friendly'') []
     (py ''English''))))) (py ''Authorization'') = Some (py ''Bearer None'') \<and>
   fst (on_submitted None tags_net [] (py ''Cats'') 60 (py ''Friendly'') [] (py ''English'')) =
     [St_spinner ([128260] @ py '' Creating script outline...''),
      St_subheader ([128203] @ py '' Generated Content''),
      St_markdown (py ''## '' @ [128221] @
        py '' Script Outline\<newline>OUTLINE\<newline>\<newline>## '' @ [127916] @
        py '' Final Script\<newline>SCRIPT\<newline>\<newline>## '' @ [127991, 65039] @
        py '' Hashtags & Caption\<newline>TAGS''),
      St_success ([9989] @ py '' Script generated! Copy and use it for your next post.'')]"
proof -
  let ?s0 = "initial_state (py ''Cats'') 60 (py ''Friendly'') [] (py ''English'')"
  have e0: "error ?s0 = []"
    by (simp add: initial_state_def)
  have t: "strip (py ''Cats'') \<noteq> []"
    by (simp add: strip_eq_Nil py_def isspace_def)
  have r: "rstrip (py ''\<newline>'' @ py ''TAGS'') = py ''\<newline>TAGS''"
    by (simp add: rstrip_def isspace_def py_def)
  have g: "generate_script None tags_net [] (py ''Cats'') 60 (py ''Friendly'') [] (py ''English'') =
      (py ''## '' @ [128221] @
        py '' Script Outline\<newline>OUTLINE\<newline>\<newline>## '' @ [127916] @
        py '' Final Script\<newline>SCRIPT\<newline>\<newline>## '' @ [127991, 65039] @
        py '' Hashtags & Caption\<newline>TAGS'',
       [build_request None (outline_prompt ?s0),
        build_request None (script_prompt (?s0\<lparr>script_outline := py ''OUTLINE''\<rparr>)),
        build_request None (hashtag_prompt
          (?s0\<lparr>script_outline := py ''OUTLINE'', final_script := py ''SCRIPT''\<rparr>))])"
    unfolding generate_script_def tags_run [OF e0] Let_def prod.case truthy_error
    by (simp add: e0 strip_response_template r) (simp add: py_def)
  show ?thesis
    unfolding on_submitted_def g Let_def prod.case
    using t by (simp add: build_request_def format_key_def) (simp add: py_def)
qed

text \<open>
  C7, amended. With the credential absent nothing is checked: every call of the client
  posts its request, whose \<open>Authorization\<close> header is \<open>Bearer None\<close>, and every run of
  the pipeline posts at least the request of the outline step.
\<close>

theorem absent_key_request:
  "snd (call_groq_api None net w prompt) = w @ [build_request None prompt] \<and>
   map_of (headers (build_request None prompt)) (py ''Authorization'') = Some (py ''Bearer None'') \<and>
   prefix (w @ [build_request None (outline_prompt s)]) (snd (app_invoke None net w s))"
proof (intro conjI)
  show "snd (call_groq_api None net w prompt) = w @ [build_request None prompt]"
    by (rule call_groq_api_world)
  show "map_of (headers (build_request None prompt)) (py ''Authorization'') =
          Some (py ''Bearer None'')"
    by (simp add: build_request_def format_key_def) (simp add: py_def)
  obtain s1 where c1: "create_outline_node None net w s =
      (s1, w @ [build_request None (outline_prompt s)])"
    by (rule call_groq_api_cases [of None net w "outline_prompt s"])
       (simp_all add: create_outline_node_def)
  have g2: "prefix w' (snd (generate_script_node None net w' s'))" for w' s'
    by (rule call_groq_api_cases [of None net w' "script_prompt s'"])
       (simp_all add: generate_script_node_def)
  have g3: "prefix w' (snd (generate_hashtags_node None net w' s'))" for w' s'
    by (rule call_groq_api_cases [of None net w' "hashtag_prompt s'"])
       (simp_all add: generate_hashtags_node_def)
  let ?w1 = "w @ [build_request None (outline_prompt s)]"
  have "prefix ?w1 (snd (generate_script_node None net ?w1 s1))"
    by (rule g2)
  also have "prefix (snd (generate_script_node None net ?w1 s1))
      (snd (generate_hashtags_node None net (snd (generate_script_node None net ?w1 s1))
        (fst (generate_script_node None net ?w1 s1))))"
    by (rule g3)
  finally show "prefix ?w1 (snd (app_invoke None net w s))"
    by (simp add: app_invoke_def c1 case_prod_unfold Let_def)
qed

text \<open>
  C8. A topic that is empty or consists of whitespace only is rejected with the message
  \<open>Please enter a topic!\<close>, and the world is unchanged: no request is posted, the
  pipeline is not run.
\<close>

theorem blank_topic_rejected:
  assumes "\<forall>c\<in>set topic_v. isspace c"
  shows "on_submitted k net w topic_v duration_v tone_v platform_v language_v =
           ([St_error (py ''Please enter a topic!'')], w)"
  using assms by (simp add: on_submitted_def strip_eq_Nil)

theorem blank_topic_rejected_witness:
  "isspace 32 \<and> isspace 9 \<and> isspace 10 \<and>
   on_submitted None (stub_net []) [] [32, 9, 10] 60 (py ''Friendly'') [] (py ''English'') =
     ([St_error (py ''Please enter a topic!'')], [])"
proof -
  have h: "\<forall>c\<in>set [32, 9, 10]. isspace c"
    by (simp add: isspace_def)
  show ?thesis
    using h blank_topic_rejected [OF h] by simp
qed

text \<open>
  C9. Each of the three nodes returns a state that agrees with its input on \<open>topic\<close>,
  \<open>duration\<close>, \<open>tone\<close>, \<open>platform\<close> and \<open>language\<close>, for every input state and every
  behaviour of the network.
\<close>

theorem steps_keep_inputs:
  "inputs_agree (fst (create_outline_node k net w s)) s \<and>
   inputs_agree (fst (generate_script_node k net w s)) s \<and>
   inputs_agree (fst (generate_hashtags_node k net w s)) s"
proof (intro conjI)
  show "inputs_agree (fst (create_outline_node k net w s)) s"
    by (rule call_groq_api_cases [of k net w "outline_prompt s"])
       (simp_all add: create_outline_node_def inputs_agree_def)
  show "inputs_agree (fst (generate_script_node k net w s)) s"
    by (rule call_groq_api_cases [of k net w "script_prompt s"])
       (simp_all add: generate_script_node_def inputs_agree_def)
  show "inputs_agree (fst (generate_hashtags_node k net w s)) s"
    by (rule call_groq_api_cases [of k net w "hashtag_prompt s"])
       (simp_all add: generate_hashtags_node_def inputs_agree_def)
qed

text \<open>
  C10. When the client raises during a step, the step leaves its own content field as it
  was and sets \<open>error\<close> to its prefix (\<open>Error creating outline: \<close>,
  \<open>Error generating script: \<close>, \<open>Error generating hashtags: \<close>) followed by the text of
  the exception. Whatever happens, no step changes a content field of another step.
\<close>

theorem step_failure_atomic:
  "(fst (call_groq_api k net w (outline_prompt s)) = Inl e \<longrightarrow>
      script_outline (fst (create_outline_node k net w s)) = script_outline s \<and>
      error (fst (create_outline_node k net w s)) = py ''Error creating outline: '' @ exn_str e) \<and>
   (error s = [] \<and> fst (call_groq_api k net w (script_prompt s)) = Inl e \<longrightarrow>
      final_script (fst (generate_script_node k net w s)) = final_script s \<and>
      error (fst (generate_script_node k net w s)) = py ''Error generating script: '' @ exn_str e) \<and>
   (error s = [] \<and> fst (call_groq_api k net w (hashtag_prompt s)) = Inl e \<longrightarrow>
      hashtags (fst (generate_hashtags_node k net w s)) = hashtags s \<and>
      error (fst (generate_hashtags_node k net w s)) = py ''Error generating hashtags: '' @ exn_str e) \<and>
   final_script (fst (create_outline_node k net w s)) = final_script s \<and>
   hashtags (fst (create_outline_node k net w s)) = hashtags s \<and>
   script_outline (fst (generate_script_node k net w s)) = script_outline s \<and>
   hashtags (fst (generate_script_node k net w s)) = hashtags s \<and>
   script_outline (fst (generate_hashtags_node k net w s)) = script_outline s \<and>
   final_script (fst (generate_hashtags_node k net w s)) = final_script s"
proof (intro conjI impI)
  show "final_script (fst (create_outline_node k net w s)) = final_script s"
    by (rule call_groq_api_cases [of k net w "outline_prompt s"])
       (simp_all add: create_outline_node_def)
  show "hashtags (fst (create_outline_node k net w s)) = hashtags s"
    by (rule call_groq_api_cases [of k net w "outline_prompt s"])
       (simp_all add: create_outline_node_def)
  show "script_outline (fst (generate_script_node k net w s)) = script_outline s"
    by (rule call_groq_api_cases [of k net w "script_prompt s"])
       (simp_all add: generate_script_node_def)
  show "hashtags (fst (generate_script_node k net w s)) = hashtags s"
    by (rule call_groq_api_cases [of k net w "script_prompt s"])
       (simp_all add: generate_script_node_def)
  show "script_outline (fst (generate_hashtags_node k net w s)) = script_outline s"
    by (rule call_groq_api_cases [of k net w "hashtag_prompt s"])
       (simp_all add: generate_hashtags_node_def)
  show "final_script (fst (generate_hashtags_node k net w s)) = final_script s"
    by (rule call_groq_api_cases [of k net w "hashtag_prompt s"])
       (simp_all add: generate_hashtags_node_def)
qed (simp_all add: create_outline_node_Inl generate_script_node_Inl generate_hashtags_node_Inl)

theorem step_failure_atomic_witness:
  "error demo_state = [] \<and>
   fst (call_groq_api None (stub_net [Inl timed_out]) [] (outline_prompt demo_state)) = Inl timed_out \<and>
   fst (call_groq_api None (stub_net [Inl timed_out]) [] (script_prompt demo_state)) = Inl timed_out \<and>
   fst (call_groq_api None (stub_net [Inl timed_out]) [] (hashtag_prompt demo_state)) = Inl timed_out \<and>
   script_outline (fst (create_outline_node None (stub_net [Inl timed_out]) [] demo_state)) = [] \<and>
   error (fst (create_outline_node None (stub_net [Inl timed_out]) [] demo_state)) =
     py ''Error creating outline: Read timed out.'' \<and>
   final_script (fst (generate_script_node None (stub_net [Inl timed_out]) [] demo_state)) = [] \<and>
   error (fst (generate_script_node None (stub_net [Inl timed_out]) [] demo_state)) =
     py ''Error generating script: Read timed out.'' \<and>
   hashtags (fst (generate_hashtags_node None (stub_net [Inl timed_out]) [] demo_state)) = [] \<and>
   error (fst (generate_hashtags_node None (stub_net [Inl timed_out]) [] demo_state)) =
     py ''Error generating hashtags: Read timed out.''"
proof -
  have c: "fst (call_groq_api None (stub_net [Inl timed_out]) [] p) = Inl timed_out" for p
    by (simp add: call_raises stub_net_def)
  have m: "exn_str timed_out = py ''Read timed out.''"
    by (simp add: timed_out_def)
  have f: "script_outline demo_state = []" "final_script demo_state = []"
    "hashtags demo_state = []"
    by (simp_all add: demo_state_def initial_state_def)
  show ?thesis
    using step_failure_atomic [of None "stub_net [Inl timed_out]" "[]" demo_state timed_out]
    by (simp add: c m f demo_state_error py_def)
qed

end
